theory Spec2Isabelle
  imports Complex_Main
begin

section \<open>Python values, exceptions and name lookup\<close>

text \<open>
  The adapters of \<^verbatim>\<open>model_comparison/algorithms\<close> are Python classes. An
  exception is a value of \<open>py_error\<close>; a computation that may raise returns
  \<open>py_error + 'a\<close> with \<open>Inl\<close> for the exception.
\<close>

datatype py_error =
    NameError string
  | TypeError
  | ValueError
  | OverflowError
  | LibraryError string

text \<open>
  The values that occur as hyperparameter defaults, categorical choices and configuration
  entries: \<^verbatim>\<open>None\<close>, booleans, integers, floats and strings. The float literals of
  the sources are only ever compared with each other, so they are kept as the exact
  decimal numbers that are written.
\<close>

datatype pyval = PNone | PBool bool | PInt int | PFloat real | PStr string

text \<open>
  \<^verbatim>\<open>'{}__random_state'.format(self.NAME)\<close> and
  \<^verbatim>\<open>'Failed to select support with {}'.format(self.NAME)\<close>: a template with one
  pair of braces, given as the text before and the text after the braces.
\<close>

definition format_braces :: "string \<Rightarrow> string \<Rightarrow> string \<Rightarrow> string" where
  "format_braces before after x = before @ x @ after"

section \<open>The ConfigSpace objects the adapters build\<close>

text \<open>
  The three hyperparameter classes of the ConfigSpace library, with the arguments the
  sources pass: name, bounds (or choices), and \<^verbatim>\<open>default_value\<close>, which is
  \<open>PNone\<close> when the keyword is left out (its Python default). The library itself is
  not part of the repository. A value of this type is a hyperparameter object once
  constructed; the constructors, which validate their arguments and may raise, follow
  below. \<open>add_hyperparameters\<close>, \<open>add_conditions\<close> and \<open>seed\<close> record what they
  are given.
\<close>

datatype hyperparameter =
    UniformIntegerHyperparameter string int int pyval
  | UniformFloatHyperparameter string real real pyval
  | CategoricalHyperparameter string "pyval list" pyval

fun hp_name :: "hyperparameter \<Rightarrow> string" where
  "hp_name (UniformIntegerHyperparameter n lo hi d) = n"
| "hp_name (UniformFloatHyperparameter n lo hi d) = n"
| "hp_name (CategoricalHyperparameter n cs d) = n"

text \<open>
  Whether a declared default lies inside the declared domain. A default that is left out
  (\<open>PNone\<close>) is chosen by the library and is not judged here; an integer default of a
  float range is read as that number.
\<close>

fun default_in_domain :: "hyperparameter \<Rightarrow> bool" where
  "default_in_domain (UniformIntegerHyperparameter n lo hi d) =
     (case d of PNone \<Rightarrow> True | PInt v \<Rightarrow> lo \<le> v \<and> v \<le> hi | _ \<Rightarrow> False)"
| "default_in_domain (UniformFloatHyperparameter n lo hi d) =
     (case d of PNone \<Rightarrow> True
      | PFloat v \<Rightarrow> lo \<le> v \<and> v \<le> hi
      | PInt v \<Rightarrow> lo \<le> of_int v \<and> of_int v \<le> hi
      | _ \<Rightarrow> False)"
| "default_in_domain (CategoricalHyperparameter n cs d) = (d = PNone \<or> d \<in> set cs)"

text \<open>
  The constructors as the library runs them. A uniform hyperparameter needs its upper
  bound above its lower bound and raises \<open>ValueError\<close> for a default outside its
  range. A categorical hyperparameter goes through its choices in order and raises
  \<open>ValueError\<close> for a choice that occurs twice and \<open>TypeError\<close> for the choice
  \<^verbatim>\<open>None\<close>; then it raises \<open>ValueError\<close> for a default that is not a choice.
\<close>

definition UniformIntegerHyperparameter_init ::
  "string \<Rightarrow> int \<Rightarrow> int \<Rightarrow> pyval \<Rightarrow> py_error + hyperparameter" where
  "UniformIntegerHyperparameter_init n lo hi d =
     (if hi \<le> lo then Inl ValueError
      else if default_in_domain (UniformIntegerHyperparameter n lo hi d)
      then Inr (UniformIntegerHyperparameter n lo hi d)
      else Inl ValueError)"

definition UniformFloatHyperparameter_init ::
  "string \<Rightarrow> real \<Rightarrow> real \<Rightarrow> pyval \<Rightarrow> py_error + hyperparameter" where
  "UniformFloatHyperparameter_init n lo hi d =
     (if hi \<le> lo then Inl ValueError
      else if default_in_domain (UniformFloatHyperparameter n lo hi d)
      then Inr (UniformFloatHyperparameter n lo hi d)
      else Inl ValueError)"

fun check_choices :: "pyval list \<Rightarrow> pyval list \<Rightarrow> py_error option" where
  "check_choices every [] = None"
| "check_choices every (c # cs) =
     (if count_list every c > 1 then Some ValueError
      else if c = PNone then Some TypeError
      else check_choices every cs)"

definition CategoricalHyperparameter_init ::
  "string \<Rightarrow> pyval list \<Rightarrow> pyval \<Rightarrow> py_error + hyperparameter" where
  "CategoricalHyperparameter_init n cs d =
     (case check_choices cs cs of
        Some e \<Rightarrow> Inl e
      | None \<Rightarrow>
          if default_in_domain (CategoricalHyperparameter n cs d)
          then Inr (CategoricalHyperparameter n cs d)
          else Inl ValueError)"

text \<open>\<^verbatim>\<open>InCondition(child=..., parent=..., values=[...])\<close>.\<close>

datatype condition = InCondition hyperparameter hyperparameter "pyval list"

fun condition_child :: "condition \<Rightarrow> hyperparameter" where
  "condition_child (InCondition c p vs) = c"

record configuration_space =
  seed_of :: "int option"
  hyperparameters :: "hyperparameter list"
  conditions :: "condition list"

definition ConfigurationSpace :: configuration_space where
  "ConfigurationSpace = \<lparr>seed_of = None, hyperparameters = [], conditions = []\<rparr>"

definition seed :: "configuration_space \<Rightarrow> int \<Rightarrow> configuration_space" where
  "seed config s = config\<lparr>seed_of := Some s\<rparr>"

definition add_hyperparameters ::
  "configuration_space \<Rightarrow> hyperparameter list \<Rightarrow> configuration_space" where
  "add_hyperparameters config hps = config\<lparr>hyperparameters := hyperparameters config @ hps\<rparr>"

definition add_conditions ::
  "configuration_space \<Rightarrow> condition list \<Rightarrow> configuration_space" where
  "add_conditions config cs = config\<lparr>conditions := conditions config @ cs\<rparr>"

definition add_condition :: "configuration_space \<Rightarrow> condition \<Rightarrow> configuration_space" where
  "add_condition config c = add_conditions config [c]"

text \<open>
  A configuration gives a value to each active hyperparameter and none to an inactive one.
  An \<open>InCondition\<close> is met when the parent has a value and that value is one of the
  listed ones; a hyperparameter is active when every condition on it is met.
\<close>

type_synonym configuration = "string \<rightharpoonup> pyval"

fun condition_met :: "configuration \<Rightarrow> condition \<Rightarrow> bool" where
  "condition_met cfg (InCondition c p vs) =
     (case cfg (hp_name p) of None \<Rightarrow> False | Some v \<Rightarrow> v \<in> set vs)"

definition is_active :: "configuration_space \<Rightarrow> configuration \<Rightarrow> string \<Rightarrow> bool" where
  "is_active config cfg n =
     list_all (condition_met cfg)
       (filter (\<lambda>c. hp_name (condition_child c) = n) (conditions config))"

subsection \<open>Modules, their globals, and loading a name\<close>

text \<open>
  Both modules bind \<^verbatim>\<open>SEED = 0\<close> at top level; the properties declare
  \<^verbatim>\<open>global SEED\<close> and read it. A property takes the module state and returns it
  with its result.
\<close>

record module_state =
  SEED :: int

definition classification_module :: module_state where
  "classification_module = \<lparr>SEED = 0\<rparr>"

definition feature_selection_module :: module_state where
  "feature_selection_module = \<lparr>SEED = 0\<rparr>"

text \<open>The names bound at the top level of each module: its imports, \<^verbatim>\<open>SEED\<close> and its classes.\<close>

definition classification_globals :: "string list" where
  "classification_globals =
     [''base'', ''SVC'', ''RandomForestClassifier'', ''KNeighborsClassifier'', ''GaussianNB'',
      ''LogisticRegression'', ''PLSRegression'', ''ConfigurationSpace'', ''InCondition'',
      ''CategoricalHyperparameter'', ''UniformFloatHyperparameter'',
      ''UniformIntegerHyperparameter'', ''SEED'', ''RFEstimator'', ''PLSREstimator'',
      ''LogRegEstimator'', ''SVCEstimator'', ''GNBEstimator'', ''KNNEstimator'']"

definition feature_selection_globals :: "string list" where
  "feature_selection_globals =
     [''warnings'', ''np'', ''base'', ''ReliefF'', ''spearmanr'', ''chi2'', ''f_classif'',
      ''VarianceThreshold'', ''SelectKBest'', ''check_X_y'', ''MinMaxScaler'',
      ''feature_ranking'', ''RFS'', ''ConfigurationSpace'', ''InCondition'',
      ''CategoricalHyperparameter'', ''UniformFloatHyperparameter'',
      ''UniformIntegerHyperparameter'', ''SEED'', ''ReliefFSelection'',
      ''MutualInformationSelection'']"

text \<open>
  Reading a variable inside a property: a name assigned in the body is a local; any other
  name is looked up among the module's globals (none of which is a hyperparameter, so
  handing one to the library is a \<open>TypeError\<close>) and raises \<open>NameError\<close> when it is
  not bound there. No name the properties read is a Python builtin.
\<close>

type_synonym frame = "string \<rightharpoonup> hyperparameter"

text \<open>
  The assignments at the head of a property, one after the other: each binds a local to
  the hyperparameter its constructor returns, and the first constructor that raises ends
  the property.
\<close>

fun assign_all :: "(string \<times> (py_error + hyperparameter)) list \<Rightarrow> frame \<Rightarrow> py_error + frame" where
  "assign_all [] frame = Inr frame"
| "assign_all ((x, r) # rest) frame =
     (case r of Inl e \<Rightarrow> Inl e | Inr h \<Rightarrow> assign_all rest (frame(x \<mapsto> h)))"

definition load_name :: "string list \<Rightarrow> frame \<Rightarrow> string \<Rightarrow> py_error + hyperparameter" where
  "load_name globals frame x =
     (case frame x of
        Some h \<Rightarrow> Inr h
      | None \<Rightarrow> if x \<in> set globals then Inl TypeError else Inl (NameError x))"

text \<open>The elements of a tuple are evaluated left to right; the first exception wins.\<close>

fun collect :: "('e + 'a) list \<Rightarrow> 'e + 'a list" where
  "collect [] = Inr []"
| "collect (r # rs) =
     (case r of
        Inl e \<Rightarrow> Inl e
      | Inr a \<Rightarrow> (case collect rs of Inl e \<Rightarrow> Inl e | Inr as \<Rightarrow> Inr (a # as)))"

definition load_names :: "string list \<Rightarrow> frame \<Rightarrow> string list \<Rightarrow> py_error + hyperparameter list" where
  "load_names globals frame xs = collect (map (load_name globals frame) xs)"

definition load_condition ::
  "string list \<Rightarrow> frame \<Rightarrow> string \<Rightarrow> string \<Rightarrow> pyval list \<Rightarrow> py_error + condition" where
  "load_condition globals frame child parent vs =
     (case load_name globals frame child of
        Inl e \<Rightarrow> Inl e
      | Inr c \<Rightarrow>
          (case load_name globals frame parent of
             Inl e \<Rightarrow> Inl e
           | Inr p \<Rightarrow> Inr (InCondition c p vs)))"

section \<open>classification.py\<close>

definition RFEstimator_NAME :: string where
  "RFEstimator_NAME = ''RFEstimator''"

definition PLSREstimator_NAME :: string where
  "PLSREstimator_NAME = ''PLSREstimator''"

definition LogRegEstimator_NAME :: string where
  "LogRegEstimator_NAME = ''LogRegEstimator''"

definition SVCEstimator_NAME :: string where
  "SVCEstimator_NAME = ''SVCEstimator''"

definition KNNEstimator_NAME :: string where
  "KNNEstimator_NAME = ''KNNEstimator''"

text \<open>
  \<^verbatim>\<open>RFEstimator.hparam_space\<close> builds a tuple of hyperparameters, not a space; the
  constructors are called from left to right.
\<close>

definition RFEstimator_hparam_space :: "py_error + hyperparameter list" where
  "RFEstimator_hparam_space =
     collect
       [UniformIntegerHyperparameter_init
          (format_braces [] ''__random_state'' RFEstimator_NAME) 0 1000 PNone,
        UniformIntegerHyperparameter_init
          (format_braces [] ''__n_estimators'' RFEstimator_NAME) 10 3000 (PInt 100),
        CategoricalHyperparameter_init
          (format_braces [] ''__criterion'' RFEstimator_NAME)
          [PStr ''gini'', PStr ''entropy''] (PStr ''gini''),
        CategoricalHyperparameter_init
          (format_braces [] ''__max_depth'' RFEstimator_NAME)
          [PInt 3, PInt 5, PNone] PNone,
        CategoricalHyperparameter_init
          (format_braces [] ''__max_features'' RFEstimator_NAME)
          [PStr ''auto'', PStr ''sqrt'', PStr ''log2'', PNone] PNone,
        CategoricalHyperparameter_init
          (format_braces [] ''__bootstrap'' RFEstimator_NAME)
          [PBool True, PBool False] (PBool True),
        UniformFloatHyperparameter_init
          (format_braces [] ''__min_samples_leaf'' RFEstimator_NAME) 1.5 50.5 (PFloat 1.0)]"

definition PLSREstimator_config_space ::
  "module_state \<Rightarrow> (py_error + configuration_space) \<times> module_state" where
  "PLSREstimator_config_space m =
     (case assign_all
             [(''tol'',
                UniformFloatHyperparameter_init ''tol'' (1 / 10 ^ 9) (1 / 10 ^ 3) (PFloat (1 / 10 ^ 7))),
              (''n_components'',
                UniformIntegerHyperparameter_init ''n_components'' 1 40 (PInt 27))]
             Map.empty of
        Inl e \<Rightarrow> (Inl e, m)
      | Inr frame \<Rightarrow>
          (let config = seed ConfigurationSpace (SEED m)
           in (case load_names classification_globals frame [''tol'', ''n_components''] of
                 Inl e \<Rightarrow> Inl e
               | Inr hps \<Rightarrow> Inr (add_hyperparameters config hps),
               m)))"

definition LogRegEstimator_config_space ::
  "module_state \<Rightarrow> (py_error + configuration_space) \<times> module_state" where
  "LogRegEstimator_config_space m =
     (case assign_all
             [(''random_states'',
                UniformIntegerHyperparameter_init ''random_state'' 0 1000 PNone),
              (''C'',
                UniformFloatHyperparameter_init ''C'' 0.001 1000.0 (PFloat 1.0)),
              (''penalty'',
                CategoricalHyperparameter_init ''penalty'' [PStr ''l1'', PStr ''l2''] (PStr ''l2''))]
             Map.empty of
        Inl e \<Rightarrow> (Inl e, m)
      | Inr frame \<Rightarrow>
          (let config = seed ConfigurationSpace (SEED m)
           in (case load_names classification_globals frame [''random_states'', ''C'', ''penalty''] of
                 Inl e \<Rightarrow> Inl e
               | Inr hps \<Rightarrow> Inr (add_hyperparameters config hps),
               m)))"

definition SVCEstimator_config_space ::
  "module_state \<Rightarrow> (py_error + configuration_space) \<times> module_state" where
  "SVCEstimator_config_space m =
     (case assign_all
             [(''random_states'',
                UniformIntegerHyperparameter_init ''random_state'' 0 1000 PNone),
              (''C'',
                UniformFloatHyperparameter_init ''C'' 0.001 1000.0 (PFloat 1.0)),
              (''shrinking'',
                CategoricalHyperparameter_init ''shrinking'' [PBool True, PBool False] (PBool True)),
              (''kernel'',
                CategoricalHyperparameter_init ''kernel'' [PStr ''linear'', PStr ''rbf'', PStr ''poly'', PStr ''sigmoid''] PNone),
              (''gamma'',
                CategoricalHyperparameter_init ''gamma'' [PStr ''auto'', PStr ''value''] (PStr ''auto'')),
              (''gamma_value'',
                UniformFloatHyperparameter_init ''gamma_value'' 0.0001 8 (PInt 1)),
              (''degree'',
                UniformIntegerHyperparameter_init ''degree'' 1 5 (PInt 3)),
              (''coef0'',
                UniformFloatHyperparameter_init ''coef0'' 0.0 10.0 (PFloat 0.0))]
             Map.empty of
        Inl e \<Rightarrow> (Inl e, m)
      | Inr frame \<Rightarrow>
          (let config = seed ConfigurationSpace (SEED m)
           in (case load_names classification_globals frame
                      [''random_states'', ''C'', ''shrinking'', ''kernel'', ''degree'', ''coef0'',
                       ''gamma'', ''gamma_value''] of
                 Inl e \<Rightarrow> Inl e
               | Inr hps \<Rightarrow>
                   (case collect
                           [load_condition classification_globals frame
                              ''degree'' ''kernel'' [PStr ''poly''],
                            load_condition classification_globals frame
                              ''gamma_value'' ''gamma'' [PStr ''value''],
                            load_condition classification_globals frame
                              ''coef0'' ''kernel'' [PStr ''poly'', PStr ''sigmoid''],
                            load_condition classification_globals frame
                              ''gamma'' ''kernel'' [PStr ''rbf'', PStr ''poly'', PStr ''sigmoid'']] of
                      Inl e \<Rightarrow> Inl e
                    | Inr cs \<Rightarrow> Inr (add_conditions (add_hyperparameters config hps) cs)),
               m)))"

definition KNNEstimator_config_space ::
  "module_state \<Rightarrow> (py_error + configuration_space) \<times> module_state" where
  "KNNEstimator_config_space m =
     (case assign_all
             [(''n_neighbors'',
                UniformIntegerHyperparameter_init ''n_neighbors'' 3 100 (PInt 5)),
              (''leaf_size'',
                UniformIntegerHyperparameter_init ''leaf_size'' 10 100 (PInt 30)),
              (''metric'',
                CategoricalHyperparameter_init ''metric'' [PStr ''euclidean'', PStr ''manhattan'', PStr ''chebyshev'', PStr ''minkowski''] (PStr ''minkowski'')),
              (''p'',
                UniformIntegerHyperparameter_init ''p'' 1 5 (PInt 2))]
             Map.empty of
        Inl e \<Rightarrow> (Inl e, m)
      | Inr frame \<Rightarrow>
          (let config = seed ConfigurationSpace (SEED m)
           in (case load_names classification_globals frame
                      [''n_neighbors'', ''leaf_size'', ''metric'', ''p''] of
                 Inl e \<Rightarrow> Inl e
               | Inr hps \<Rightarrow>
                   (case load_condition classification_globals frame
                           ''p'' ''metric'' [PStr ''minkowski''] of
                      Inl e \<Rightarrow> Inl e
                    | Inr c \<Rightarrow> Inr (add_condition (add_hyperparameters config hps) c)),
               m)))"

section \<open>feature_selection.py\<close>

subsection \<open>Attribute values, comparison, \<^verbatim>\<open>int()\<close> and slicing\<close>

text \<open>
  \<^verbatim>\<open>num_neighbors\<close>, \<^verbatim>\<open>num_features\<close> and \<^verbatim>\<open>random_state\<close> are
  \<^verbatim>\<open>None\<close> by default and otherwise numbers: an integer, a finite float (an exact
  number), or one of the three special floats.
\<close>

datatype attr = NoneVal | IntVal int | FloatVal real | NaN | PosInf | NegInf

text \<open>\<^verbatim>\<open>v > n\<close> and \<^verbatim>\<open>v < n\<close> for an integer \<open>n\<close>; \<^verbatim>\<open>None\<close> is unorderable.\<close>

fun py_gt :: "attr \<Rightarrow> int \<Rightarrow> py_error + bool" where
  "py_gt NoneVal n = Inl TypeError"
| "py_gt (IntVal i) n = Inr (i > n)"
| "py_gt (FloatVal r) n = Inr (r > of_int n)"
| "py_gt NaN n = Inr False"
| "py_gt PosInf n = Inr True"
| "py_gt NegInf n = Inr False"

fun py_lt :: "attr \<Rightarrow> int \<Rightarrow> py_error + bool" where
  "py_lt NoneVal n = Inl TypeError"
| "py_lt (IntVal i) n = Inr (i < n)"
| "py_lt (FloatVal r) n = Inr (r < of_int n)"
| "py_lt NaN n = Inr False"
| "py_lt PosInf n = Inr False"
| "py_lt NegInf n = Inr True"

text \<open>\<^verbatim>\<open>int(v)\<close>: a float is truncated towards zero.\<close>

definition trunc_toward_zero :: "real \<Rightarrow> int" where
  "trunc_toward_zero r = (if 0 \<le> r then \<lfloor>r\<rfloor> else \<lceil>r\<rceil>)"

fun py_int :: "attr \<Rightarrow> py_error + int" where
  "py_int NoneVal = Inl TypeError"
| "py_int (IntVal i) = Inr i"
| "py_int (FloatVal r) = Inr (trunc_toward_zero r)"
| "py_int NaN = Inl ValueError"
| "py_int PosInf = Inl OverflowError"
| "py_int NegInf = Inl OverflowError"

text \<open>
  \<^verbatim>\<open>xs[:k]\<close>: the first \<open>k\<close> elements, all of them when \<open>k\<close> exceeds the
  length; a negative \<open>k\<close> counts from the end; \<^verbatim>\<open>None\<close> keeps everything; a
  float is not an index.
\<close>

fun py_slice_upto :: "'a list \<Rightarrow> attr \<Rightarrow> py_error + 'a list" where
  "py_slice_upto xs (IntVal k) =
     Inr (if k < 0 then take (nat (int (length xs) + k)) xs else take (nat k) xs)"
| "py_slice_upto xs NoneVal = Inr xs"
| "py_slice_upto xs v = Inl TypeError"

subsection \<open>The feature matrix and the min-max scaler\<close>

text \<open>
  A feature matrix is the list of its rows (a two-dimensional array, all rows of one
  length), the target a list of numbers. \<^verbatim>\<open>MinMaxScaler().fit_transform(X)\<close> of
  scikit-learn maps each column to the range from 0 to 1 with the column's minimum and
  maximum (a constant column is scaled by 1), here in exact arithmetic; it rejects a
  matrix with no rows.
\<close>

type_synonym matrix = "real list list"

type_synonym labels = "real list"

record MinMaxScaler =
  data_min :: "real list"
  data_max :: "real list"

fun column_wise :: "(real \<Rightarrow> real \<Rightarrow> real) \<Rightarrow> matrix \<Rightarrow> real list" where
  "column_wise f [] = []"
| "column_wise f [r] = r"
| "column_wise f (r # rs) = map2 f r (column_wise f rs)"

definition scale_of :: "real \<Rightarrow> real \<Rightarrow> real" where
  "scale_of lo hi = 1 / (if hi - lo = 0 then 1 else hi - lo)"

definition MinMaxScaler_transform :: "MinMaxScaler \<Rightarrow> matrix \<Rightarrow> matrix" where
  "MinMaxScaler_transform sc X =
     map (\<lambda>row. map (\<lambda>(x, lo, hi). x * scale_of lo hi + (0 - lo * scale_of lo hi))
                   (zip row (zip (data_min sc) (data_max sc)))) X"

definition MinMaxScaler_fit_transform :: "matrix \<Rightarrow> py_error + MinMaxScaler \<times> matrix" where
  "MinMaxScaler_fit_transform X =
     (if X = [] then Inl ValueError
      else let sc = \<lparr>data_min = column_wise min X, data_max = column_wise max X\<rparr>
           in Inr (sc, MinMaxScaler_transform sc X))"

subsection \<open>ReliefFSelection\<close>

text \<open>
  The attributes \<^verbatim>\<open>__init__\<close> sets (\<^verbatim>\<open>error_handling\<close> goes to the base
  class and is not read by the methods below). Three collaborators are not part of the
  repository's files and are arguments of the methods that call them:
  \<^item> \<open>sk_check_X_y\<close>, scikit-learn's \<^verbatim>\<open>check_X_y\<close> (the shape check), which raises
    or returns the validated pair;
  \<^item> \<open>relieff\<close>, constructing \<^verbatim>\<open>ReliefF(n_neighbors, n_features_to_keep)\<close>, fitting it
    and reading \<^verbatim>\<open>top_features\<close>, which raises or returns the ranked feature indices;
  \<^item> \<open>check_support\<close>, inherited from \<^verbatim>\<open>base.BaseSelector\<close>, which raises or
    returns the support (possibly \<^verbatim>\<open>None\<close>).
  A method returns the object it has mutated; \<^verbatim>\<open>warnings.warn\<close> is the list of
  messages issued, under the default warning filter.
\<close>

record ReliefFSelection =
  num_neighbors :: attr
  num_features :: attr
  support :: "int list option"
  scaler :: "MinMaxScaler option"

definition ReliefFSelection_NAME :: string where
  "ReliefFSelection_NAME = ''ReliefFSelection''"

definition ReliefFSelection_init :: "attr \<Rightarrow> attr \<Rightarrow> ReliefFSelection" where
  "ReliefFSelection_init nn nf =
     \<lparr>num_neighbors = nn, num_features = nf, support = None, scaler = None\<rparr>"

definition ReliefFSelection_config_space ::
  "module_state \<Rightarrow> (py_error + configuration_space) \<times> module_state" where
  "ReliefFSelection_config_space m =
     (case assign_all
             [(''num_neighbors'',
                UniformIntegerHyperparameter_init ''num_neighbors'' 10 100 (PInt 20)),
              (''num_features'',
                UniformIntegerHyperparameter_init ''num_features'' 2 50 (PInt 20))]
             Map.empty of
        Inl e \<Rightarrow> (Inl e, m)
      | Inr frame \<Rightarrow>
          (let config = seed ConfigurationSpace (SEED m)
           in (case load_names feature_selection_globals frame [''num_neighbors'', ''num_features''] of
                 Inl e \<Rightarrow> Inl e
               | Inr hps \<Rightarrow> Inr (add_hyperparameters config hps),
               m)))"

definition ReliefFSelection_check_X_y ::
  "(matrix \<Rightarrow> labels \<Rightarrow> py_error + matrix \<times> labels) \<Rightarrow> ReliefFSelection \<Rightarrow> matrix \<Rightarrow> labels \<Rightarrow>
     py_error + matrix \<times> labels \<times> ReliefFSelection" where
  "ReliefFSelection_check_X_y sk_check_X_y self X y =
     (case sk_check_X_y X y of
        Inl e \<Rightarrow> Inl e
      | Inr (X1, y1) \<Rightarrow>
          (case scaler self of
             None \<Rightarrow>
               (case MinMaxScaler_fit_transform X1 of
                  Inl e \<Rightarrow> Inl e
                | Inr (sc, X2) \<Rightarrow> Inr (X2, y1, self\<lparr>scaler := Some sc\<rparr>))
           | Some sc \<Rightarrow> Inr (X1, y1, self)))"

definition ReliefFSelection_check_params ::
  "ReliefFSelection \<Rightarrow> matrix \<Rightarrow> py_error + ReliefFSelection" where
  "ReliefFSelection_check_params self X =
     (let nrows = int (length X) in
      case py_gt (num_neighbors self) nrows of
        Inl e \<Rightarrow> Inl e
      | Inr exceeds \<Rightarrow>
          (case (if exceeds then Inr (nrows - 1) else py_int (num_neighbors self)) of
             Inl e \<Rightarrow> Inl e
           | Inr k \<Rightarrow>
               (let self1 = self\<lparr>num_neighbors := IntVal k\<rparr> in
                case py_lt (num_features self1) 1 of
                  Inl e \<Rightarrow> Inl e
                | Inr below \<Rightarrow>
                    (case (if below then py_int (num_features self1)
                           else py_int (num_features self1)) of
                       Inl e \<Rightarrow> Inl e
                     | Inr f \<Rightarrow> Inr (self1\<lparr>num_features := IntVal f\<rparr>)))))"

text \<open>
  The \<^verbatim>\<open>try\<close> block of \<^verbatim>\<open>fit\<close> with its bare \<^verbatim>\<open>except\<close>: the candidate
  support and the warnings issued.
\<close>

definition ReliefFSelection_select ::
  "(attr \<Rightarrow> attr \<Rightarrow> matrix \<Rightarrow> labels \<Rightarrow> py_error + int list) \<Rightarrow> ReliefFSelection \<Rightarrow>
     matrix \<Rightarrow> labels \<Rightarrow> int list \<times> string list" where
  "ReliefFSelection_select relieff self X y =
     (case relieff (num_neighbors self) (num_features self) X y of
        Inl e \<Rightarrow>
          ([], [format_braces ''Failed to select support with '' [] ReliefFSelection_NAME])
      | Inr top_features \<Rightarrow>
          (case py_slice_upto top_features (num_features self) of
             Inl e \<Rightarrow>
               ([], [format_braces ''Failed to select support with '' [] ReliefFSelection_NAME])
           | Inr s \<Rightarrow> (s, [])))"

definition ReliefFSelection_fit ::
  "(matrix \<Rightarrow> labels \<Rightarrow> py_error + matrix \<times> labels) \<Rightarrow>
   (attr \<Rightarrow> attr \<Rightarrow> matrix \<Rightarrow> labels \<Rightarrow> py_error + int list) \<Rightarrow>
   (int list \<Rightarrow> matrix \<Rightarrow> py_error + int list option) \<Rightarrow>
   ReliefFSelection \<Rightarrow> matrix \<Rightarrow> labels \<Rightarrow> py_error + ReliefFSelection \<times> string list" where
  "ReliefFSelection_fit sk_check_X_y relieff check_support self X y =
     (case ReliefFSelection_check_X_y sk_check_X_y self X y of
        Inl e \<Rightarrow> Inl e
      | Inr (X1, y1, self1) \<Rightarrow>
          (case ReliefFSelection_check_params self1 X1 of
             Inl e \<Rightarrow> Inl e
           | Inr self2 \<Rightarrow>
               (case ReliefFSelection_select relieff self2 X1 y1 of
                  (candidate, warned) \<Rightarrow>
                    (case check_support candidate X1 of
                       Inl e \<Rightarrow> Inl e
                     | Inr s \<Rightarrow> Inr (self2\<lparr>support := s\<rparr>, warned)))))"

subsection \<open>MutualInformationSelection\<close>

record MutualInformationSelection =
  num_features :: attr
  num_neighbors :: attr
  random_state :: attr
  support :: "int list option"

definition MutualInformationSelection_NAME :: string where
  "MutualInformationSelection_NAME = ''MutualInformationSelection''"

definition MutualInformationSelection_init :: "attr \<Rightarrow> attr \<Rightarrow> attr \<Rightarrow> MutualInformationSelection" where
  "MutualInformationSelection_init nn nf rs =
     \<lparr>MutualInformationSelection.num_features = nf,
      MutualInformationSelection.num_neighbors = nn,
      random_state = rs,
      MutualInformationSelection.support = None\<rparr>"

text \<open>
  The body binds \<^verbatim>\<open>random_states\<close> and \<^verbatim>\<open>num_neighbors\<close> and then reads
  \<^verbatim>\<open>num_neighbors\<close> and \<^verbatim>\<open>num_features\<close>.
\<close>

definition MutualInformationSelection_config_space ::
  "module_state \<Rightarrow> (py_error + configuration_space) \<times> module_state" where
  "MutualInformationSelection_config_space m =
     (case assign_all
             [(''random_states'',
                UniformIntegerHyperparameter_init ''random_state'' 0 1000 PNone),
              (''num_neighbors'',
                UniformIntegerHyperparameter_init ''num_neighbors'' 10 100 (PInt 20))]
             Map.empty of
        Inl e \<Rightarrow> (Inl e, m)
      | Inr frame \<Rightarrow>
          (let config = seed ConfigurationSpace (SEED m)
           in (case load_names feature_selection_globals frame [''num_neighbors'', ''num_features''] of
                 Inl e \<Rightarrow> Inl e
               | Inr hps \<Rightarrow> Inr (add_hyperparameters config hps),
               m)))"

text \<open>
  The nested function \<^verbatim>\<open>_mutual_info_classif\<close> calls the global name
  \<^verbatim>\<open>mutual_info_classif\<close>; \<open>call_global\<close> stands for calling a bound global with
  the arguments of the source.
\<close>

definition MutualInformationSelection_mutual_info_classif ::
  "(string \<Rightarrow> matrix \<Rightarrow> labels \<Rightarrow> attr \<Rightarrow> attr \<Rightarrow> py_error + real list) \<Rightarrow>
   MutualInformationSelection \<Rightarrow> matrix \<Rightarrow> labels \<Rightarrow> py_error + real list" where
  "MutualInformationSelection_mutual_info_classif call_global self X y =
     (if ''mutual_info_classif'' \<in> set feature_selection_globals
      then call_global ''mutual_info_classif'' X y
             (MutualInformationSelection.num_neighbors self) (random_state self)
      else Inl (NameError ''mutual_info_classif''))"

text \<open>
  The \<^verbatim>\<open>try\<close> block of \<^verbatim>\<open>fit\<close>. \<open>select_k_best\<close> stands for constructing
  \<^verbatim>\<open>SelectKBest(score_func, k)\<close>, fitting it and reading
  \<^verbatim>\<open>get_support(indices=True)\<close>; \<open>name_repr\<close> is the text Python prints for the bound
  method \<^verbatim>\<open>self.__name__\<close>, which the message formats.
\<close>

definition MutualInformationSelection_select ::
  "(string \<Rightarrow> matrix \<Rightarrow> labels \<Rightarrow> attr \<Rightarrow> attr \<Rightarrow> py_error + real list) \<Rightarrow>
   ((matrix \<Rightarrow> labels \<Rightarrow> py_error + real list) \<Rightarrow> attr \<Rightarrow> matrix \<Rightarrow> labels \<Rightarrow> py_error + int list) \<Rightarrow>
   string \<Rightarrow> MutualInformationSelection \<Rightarrow> matrix \<Rightarrow> labels \<Rightarrow> int list \<times> string list" where
  "MutualInformationSelection_select call_global select_k_best name_repr self X y =
     (case select_k_best (MutualInformationSelection_mutual_info_classif call_global self)
             (MutualInformationSelection.num_features self) X y of
        Inl e \<Rightarrow> ([], [format_braces ''Failed support with '' ''.'' name_repr])
      | Inr s \<Rightarrow> (s, []))"

definition MutualInformationSelection_fit ::
  "(matrix \<Rightarrow> labels \<Rightarrow> py_error + matrix \<times> labels) \<Rightarrow>
   (string \<Rightarrow> matrix \<Rightarrow> labels \<Rightarrow> attr \<Rightarrow> attr \<Rightarrow> py_error + real list) \<Rightarrow>
   ((matrix \<Rightarrow> labels \<Rightarrow> py_error + real list) \<Rightarrow> attr \<Rightarrow> matrix \<Rightarrow> labels \<Rightarrow> py_error + int list) \<Rightarrow>
   (int list \<Rightarrow> matrix \<Rightarrow> py_error + int list option) \<Rightarrow> string \<Rightarrow>
   MutualInformationSelection \<Rightarrow> matrix \<Rightarrow> labels \<Rightarrow>
     py_error + MutualInformationSelection \<times> string list" where
  "MutualInformationSelection_fit sk_check_X_y call_global select_k_best check_support name_repr
       self X y =
     (case sk_check_X_y X y of
        Inl e \<Rightarrow> Inl e
      | Inr (X1, y1) \<Rightarrow>
          (case MutualInformationSelection_select call_global select_k_best name_repr self X1 y1 of
             (candidate, warned) \<Rightarrow>
               (case check_support candidate X1 of
                  Inl e \<Rightarrow> Inl e
                | Inr s \<Rightarrow> Inr (self\<lparr>MutualInformationSelection.support := s\<rparr>, warned))))"

definition MutualInformationSelection_check_params ::
  "MutualInformationSelection \<Rightarrow> matrix \<Rightarrow> py_error + MutualInformationSelection" where
  "MutualInformationSelection_check_params self X =
     (let nrows = int (length X) in
      case py_gt (MutualInformationSelection.num_neighbors self) nrows of
        Inl e \<Rightarrow> Inl e
      | Inr exceeds \<Rightarrow>
          (case (if exceeds then Inr (nrows - 1)
                 else py_int (MutualInformationSelection.num_neighbors self)) of
             Inl e \<Rightarrow> Inl e
           | Inr k \<Rightarrow>
               (let self1 = self\<lparr>MutualInformationSelection.num_neighbors := IntVal k\<rparr> in
                case py_lt (MutualInformationSelection.num_features self1) 1 of
                  Inl e \<Rightarrow> Inl e
                | Inr below \<Rightarrow>
                    (case (if below then py_int (MutualInformationSelection.num_features self1)
                           else py_int (MutualInformationSelection.num_features self1)) of
                       Inl e \<Rightarrow> Inl e
                     | Inr f \<Rightarrow>
                         Inr (self1\<lparr>MutualInformationSelection.num_features := IntVal f\<rparr>)))))"

section \<open>Notions the properties are stated with\<close>

text \<open>The names a configuration-space property declares in the space it returns.\<close>

definition declared_names :: "(py_error + configuration_space) \<times> module_state \<Rightarrow> string list" where
  "declared_names r =
     (case fst r of Inl e \<Rightarrow> [] | Inr config \<Rightarrow> map hp_name (hyperparameters config))"

text \<open>A hyperparameter name is namespaced when it starts with the owning component's name.\<close>

definition namespaced :: "string \<Rightarrow> string \<Rightarrow> bool" where
  "namespaced owner n = (take (length owner) n = owner)"

text \<open>
  Two invocations of a property one after the other: both results and the module state
  left behind.
\<close>

definition invoke_twice ::
  "(module_state \<Rightarrow> (py_error + configuration_space) \<times> module_state) \<Rightarrow> module_state \<Rightarrow>
     (py_error + configuration_space) \<times> (py_error + configuration_space) \<times> module_state" where
  "invoke_twice property m =
     (case property m of (r1, m1) \<Rightarrow> (case property m1 of (r2, m2) \<Rightarrow> (r1, r2, m2)))"

text \<open>An attribute that holds an integer or a finite float.\<close>

fun is_finite_number :: "attr \<Rightarrow> bool" where
  "is_finite_number (IntVal i) = True"
| "is_finite_number (FloatVal r) = True"
| "is_finite_number v = False"

section \<open>Properties of \<^verbatim>\<open>_check_params\<close>\<close>

lemma trunc_toward_zero_le: "r \<le> of_int n \<Longrightarrow> trunc_toward_zero r \<le> n"
  unfolding trunc_toward_zero_def by (auto simp: ceiling_le_iff floor_le_iff)

lemma clamp_or_cast_bound:
  assumes "py_gt v n = Inr b" and "(if b then Inr (n - 1) else py_int v) = Inr k"
  shows "k \<le> n \<and> (b \<and> k = n - 1 \<or> \<not> b \<and> py_int v = Inr k)"
  using assms by (cases v) (auto split: if_splits simp: trunc_toward_zero_le)

lemma ReliefFSelection_check_params_Inr:
  assumes "ReliefFSelection_check_params self X = Inr self'"
  obtains b k f where
    "py_gt (ReliefFSelection.num_neighbors self) (int (length X)) = Inr b"
    "(if b then Inr (int (length X) - 1) else py_int (ReliefFSelection.num_neighbors self)) = Inr k"
    "py_int (ReliefFSelection.num_features self) = Inr f"
    "self' = self\<lparr>ReliefFSelection.num_neighbors := IntVal k,
                   ReliefFSelection.num_features := IntVal f\<rparr>"
  using assms unfolding ReliefFSelection_check_params_def Let_def
  by (auto split: sum.splits if_splits)

lemma MutualInformationSelection_check_params_Inr:
  assumes "MutualInformationSelection_check_params self X = Inr self'"
  obtains b k f where
    "py_gt (MutualInformationSelection.num_neighbors self) (int (length X)) = Inr b"
    "(if b then Inr (int (length X) - 1)
      else py_int (MutualInformationSelection.num_neighbors self)) = Inr k"
    "py_int (MutualInformationSelection.num_features self) = Inr f"
    "self' = self\<lparr>MutualInformationSelection.num_neighbors := IntVal k,
                   MutualInformationSelection.num_features := IntVal f\<rparr>"
  using assms unfolding MutualInformationSelection_check_params_def Let_def
  by (auto split: sum.splits if_splits)

lemma finite_number_ops:
  assumes "is_finite_number v"
  shows "\<exists>b. py_gt v n = Inr b" and "\<exists>b. py_lt v n = Inr b" and "\<exists>k. py_int v = Inr k"
  using assms by (cases v; simp)+

lemma ReliefFSelection_check_params_total:
  assumes "is_finite_number (ReliefFSelection.num_neighbors self)"
    and "is_finite_number (ReliefFSelection.num_features self)"
  shows "\<exists>self'. ReliefFSelection_check_params self X = Inr self'"
proof -
  obtain b where b: "py_gt (ReliefFSelection.num_neighbors self) (int (length X)) = Inr b"
    using finite_number_ops(1)[OF assms(1)] by blast
  obtain k where k: "py_int (ReliefFSelection.num_neighbors self) = Inr k"
    using finite_number_ops(3)[OF assms(1)] by blast
  obtain c where c: "py_lt (ReliefFSelection.num_features self) 1 = Inr c"
    using finite_number_ops(2)[OF assms(2)] by blast
  obtain f where f: "py_int (ReliefFSelection.num_features self) = Inr f"
    using finite_number_ops(3)[OF assms(2)] by blast
  show ?thesis
    unfolding ReliefFSelection_check_params_def Let_def
    by (simp add: b k c f)
qed

lemma MutualInformationSelection_check_params_total:
  assumes "is_finite_number (MutualInformationSelection.num_neighbors self)"
    and "is_finite_number (MutualInformationSelection.num_features self)"
  shows "\<exists>self'. MutualInformationSelection_check_params self X = Inr self'"
proof -
  obtain b where b: "py_gt (MutualInformationSelection.num_neighbors self) (int (length X)) = Inr b"
    using finite_number_ops(1)[OF assms(1)] by blast
  obtain k where k: "py_int (MutualInformationSelection.num_neighbors self) = Inr k"
    using finite_number_ops(3)[OF assms(1)] by blast
  obtain c where c: "py_lt (MutualInformationSelection.num_features self) 1 = Inr c"
    using finite_number_ops(2)[OF assms(2)] by blast
  obtain f where f: "py_int (MutualInformationSelection.num_features self) = Inr f"
    using finite_number_ops(3)[OF assms(2)] by blast
  show ?thesis
    unfolding MutualInformationSelection_check_params_def Let_def
    by (simp add: b k c f)
qed

text \<open>
  Claim C8. For a feature matrix \<open>X\<close> with \<open>n\<close> rows, whenever
  \<^verbatim>\<open>_check_params(X)\<close> of either selector returns, \<^verbatim>\<open>num_neighbors\<close> holds an
  integer \<open>k\<close> with \<open>k \<le> n\<close>: \<open>k = n - 1\<close> when the initial value compared greater
  than \<open>n\<close>, and \<open>k\<close> is the initial value cast with \<^verbatim>\<open>int()\<close> otherwise, so an
  initial value equal to \<open>n\<close> is kept. The method does return for every integer or
  finite float in \<^verbatim>\<open>num_neighbors\<close> and \<^verbatim>\<open>num_features\<close>.
\<close>

theorem check_params_num_neighbors:
  "(ReliefFSelection_check_params s X = Inr s' \<longrightarrow>
      (\<exists>k. ReliefFSelection.num_neighbors s' = IntVal k \<and> k \<le> int (length X) \<and>
         (py_gt (ReliefFSelection.num_neighbors s) (int (length X)) = Inr True \<and>
            k = int (length X) - 1 \<or>
          py_gt (ReliefFSelection.num_neighbors s) (int (length X)) = Inr False \<and>
            py_int (ReliefFSelection.num_neighbors s) = Inr k))) \<and>
   (MutualInformationSelection_check_params t Y = Inr t' \<longrightarrow>
      (\<exists>k. MutualInformationSelection.num_neighbors t' = IntVal k \<and> k \<le> int (length Y) \<and>
         (py_gt (MutualInformationSelection.num_neighbors t) (int (length Y)) = Inr True \<and>
            k = int (length Y) - 1 \<or>
          py_gt (MutualInformationSelection.num_neighbors t) (int (length Y)) = Inr False \<and>
            py_int (MutualInformationSelection.num_neighbors t) = Inr k))) \<and>
   (is_finite_number (ReliefFSelection.num_neighbors s) \<and>
    is_finite_number (ReliefFSelection.num_features s) \<longrightarrow>
      (\<exists>s''. ReliefFSelection_check_params s X = Inr s'')) \<and>
   (is_finite_number (MutualInformationSelection.num_neighbors t) \<and>
    is_finite_number (MutualInformationSelection.num_features t) \<longrightarrow>
      (\<exists>t''. MutualInformationSelection_check_params t Y = Inr t''))"
proof (intro conjI impI)
  assume a: "ReliefFSelection_check_params s X = Inr s'"
  then obtain b k f where
    b: "py_gt (ReliefFSelection.num_neighbors s) (int (length X)) = Inr b" and
    k: "(if b then Inr (int (length X) - 1) else py_int (ReliefFSelection.num_neighbors s)) = Inr k" and
    s': "s' = s\<lparr>ReliefFSelection.num_neighbors := IntVal k, ReliefFSelection.num_features := IntVal f\<rparr>"
    by (rule ReliefFSelection_check_params_Inr)
  from clamp_or_cast_bound[OF b k] b s'
  show "\<exists>k. ReliefFSelection.num_neighbors s' = IntVal k \<and> k \<le> int (length X) \<and>
         (py_gt (ReliefFSelection.num_neighbors s) (int (length X)) = Inr True \<and>
            k = int (length X) - 1 \<or>
          py_gt (ReliefFSelection.num_neighbors s) (int (length X)) = Inr False \<and>
            py_int (ReliefFSelection.num_neighbors s) = Inr k)"
    by auto
next
  assume a: "MutualInformationSelection_check_params t Y = Inr t'"
  then obtain b k f where
    b: "py_gt (MutualInformationSelection.num_neighbors t) (int (length Y)) = Inr b" and
    k: "(if b then Inr (int (length Y) - 1)
         else py_int (MutualInformationSelection.num_neighbors t)) = Inr k" and
    t': "t' = t\<lparr>MutualInformationSelection.num_neighbors := IntVal k,
                MutualInformationSelection.num_features := IntVal f\<rparr>"
    by (rule MutualInformationSelection_check_params_Inr)
  from clamp_or_cast_bound[OF b k] b t'
  show "\<exists>k. MutualInformationSelection.num_neighbors t' = IntVal k \<and> k \<le> int (length Y) \<and>
         (py_gt (MutualInformationSelection.num_neighbors t) (int (length Y)) = Inr True \<and>
            k = int (length Y) - 1 \<or>
          py_gt (MutualInformationSelection.num_neighbors t) (int (length Y)) = Inr False \<and>
            py_int (MutualInformationSelection.num_neighbors t) = Inr k)"
    by auto
next
  assume "is_finite_number (ReliefFSelection.num_neighbors s) \<and>
    is_finite_number (ReliefFSelection.num_features s)"
  then show "\<exists>s''. ReliefFSelection_check_params s X = Inr s''"
    using ReliefFSelection_check_params_total by blast
next
  assume "is_finite_number (MutualInformationSelection.num_neighbors t) \<and>
    is_finite_number (MutualInformationSelection.num_features t)"
  then show "\<exists>t''. MutualInformationSelection_check_params t Y = Inr t''"
    using MutualInformationSelection_check_params_total by blast
qed

lemmas check_params_defs =
  ReliefFSelection_check_params_def MutualInformationSelection_check_params_def
  ReliefFSelection_init_def MutualInformationSelection_init_def

theorem check_params_num_neighbors_witness:
  "ReliefFSelection_check_params (ReliefFSelection_init (IntVal 3) (IntVal 2)) [[0], [1], [2]] =
     Inr (ReliefFSelection_init (IntVal 3) (IntVal 2)) \<and>
   ReliefFSelection.num_neighbors (ReliefFSelection_init (IntVal 3) (IntVal 2)) = IntVal 3 \<and>
   MutualInformationSelection_check_params
     (MutualInformationSelection_init (FloatVal 7.5) (IntVal 2) NoneVal) [[0], [1], [2]] =
     Inr (MutualInformationSelection_init (IntVal 2) (IntVal 2) NoneVal) \<and>
   is_finite_number (ReliefFSelection.num_neighbors (ReliefFSelection_init (IntVal 3) (IntVal 2))) \<and>
   is_finite_number (MutualInformationSelection.num_features
     (MutualInformationSelection_init (FloatVal 7.5) (IntVal 2) NoneVal))"
  using check_params_num_neighbors
    [of "ReliefFSelection_init (IntVal 3) (IntVal 2)" "[[0], [1], [2]]"
        "ReliefFSelection_init (IntVal 3) (IntVal 2)"
        "MutualInformationSelection_init (FloatVal 7.5) (IntVal 2) NoneVal" "[[0], [1], [2]]"
        "MutualInformationSelection_init (IntVal 2) (IntVal 2) NoneVal"]
  by (simp add: check_params_defs)

section \<open>Properties of the configuration spaces\<close>

lemmas space_defs =
  UniformIntegerHyperparameter_init_def UniformFloatHyperparameter_init_def
  CategoricalHyperparameter_init_def
  load_names_def load_name_def load_condition_def classification_globals_def
  feature_selection_globals_def seed_def ConfigurationSpace_def add_hyperparameters_def
  add_conditions_def add_condition_def

lemma SVCEstimator_conditions:
  "\<exists>config. fst (SVCEstimator_config_space m) = Inr config \<and>
     is_active config cfg ''degree'' = (cfg ''kernel'' = Some (PStr ''poly'')) \<and>
     is_active config cfg ''gamma_value'' = (cfg ''gamma'' = Some (PStr ''value'')) \<and>
     is_active config cfg ''coef0'' =
       (cfg ''kernel'' = Some (PStr ''poly'') \<or> cfg ''kernel'' = Some (PStr ''sigmoid'')) \<and>
     is_active config cfg ''gamma'' =
       (cfg ''kernel'' = Some (PStr ''rbf'') \<or> cfg ''kernel'' = Some (PStr ''poly'') \<or>
        cfg ''kernel'' = Some (PStr ''sigmoid''))"
  by (auto simp add: SVCEstimator_config_space_def space_defs Let_def is_active_def
      split: option.splits)

lemma KNNEstimator_conditions:
  "\<exists>config. fst (KNNEstimator_config_space m) = Inr config \<and>
     is_active config cfg ''p'' = (cfg ''metric'' = Some (PStr ''minkowski''))"
  by (auto simp add: KNNEstimator_config_space_def space_defs Let_def is_active_def
      split: option.splits)

text \<open>
  Claim C4. In the space \<^verbatim>\<open>SVCEstimator.config_space\<close> returns, \<open>degree\<close> is active
  exactly when \<open>kernel\<close> is \<open>poly\<close>, \<open>gamma_value\<close> exactly when \<open>gamma\<close> is
  \<open>value\<close>, \<open>coef0\<close> exactly when \<open>kernel\<close> is \<open>poly\<close> or \<open>sigmoid\<close>, and
  \<open>gamma\<close> exactly when \<open>kernel\<close> is \<open>rbf\<close>, \<open>poly\<close> or \<open>sigmoid\<close>; in the
  space \<^verbatim>\<open>KNNEstimator.config_space\<close> returns, \<open>p\<close> is active exactly when
  \<open>metric\<close> is \<open>minkowski\<close>. This holds for every configuration \<open>cfg\<close>.
\<close>

theorem conditional_hyperparameters_active:
  "(\<exists>config. fst (SVCEstimator_config_space m) = Inr config \<and>
     is_active config cfg ''degree'' = (cfg ''kernel'' = Some (PStr ''poly'')) \<and>
     is_active config cfg ''gamma_value'' = (cfg ''gamma'' = Some (PStr ''value'')) \<and>
     is_active config cfg ''coef0'' =
       (cfg ''kernel'' = Some (PStr ''poly'') \<or> cfg ''kernel'' = Some (PStr ''sigmoid'')) \<and>
     is_active config cfg ''gamma'' =
       (cfg ''kernel'' = Some (PStr ''rbf'') \<or> cfg ''kernel'' = Some (PStr ''poly'') \<or>
        cfg ''kernel'' = Some (PStr ''sigmoid''))) \<and>
   (\<exists>config. fst (KNNEstimator_config_space m') = Inr config \<and>
     is_active config cfg' ''p'' = (cfg' ''metric'' = Some (PStr ''minkowski'')))"
  using SVCEstimator_conditions KNNEstimator_conditions by blast

lemma ReliefFSelection_config_space_eval:
  "ReliefFSelection_config_space m =
     (Inr \<lparr>seed_of = Some (SEED m),
           hyperparameters =
             [UniformIntegerHyperparameter ''num_neighbors'' 10 100 (PInt 20),
              UniformIntegerHyperparameter ''num_features'' 2 50 (PInt 20)],
           conditions = []\<rparr>, m)"
  by (simp add: ReliefFSelection_config_space_def space_defs Let_def)

lemma PLSREstimator_config_space_eval:
  "PLSREstimator_config_space m =
     (Inr \<lparr>seed_of = Some (SEED m),
           hyperparameters =
             [UniformFloatHyperparameter ''tol'' (1 / 10 ^ 9) (1 / 10 ^ 3) (PFloat (1 / 10 ^ 7)),
              UniformIntegerHyperparameter ''n_components'' 1 40 (PInt 27)],
           conditions = []\<rparr>, m)"
  by (simp add: PLSREstimator_config_space_def space_defs Let_def)

lemma LogRegEstimator_config_space_eval:
  "LogRegEstimator_config_space m =
     (Inr \<lparr>seed_of = Some (SEED m),
           hyperparameters =
             [UniformIntegerHyperparameter ''random_state'' 0 1000 PNone,
              UniformFloatHyperparameter ''C'' 0.001 1000.0 (PFloat 1.0),
              CategoricalHyperparameter ''penalty'' [PStr ''l1'', PStr ''l2''] (PStr ''l2'')],
           conditions = []\<rparr>, m)"
  by (simp add: LogRegEstimator_config_space_def space_defs Let_def)

lemma SVCEstimator_config_space_returns:
  "\<exists>config. SVCEstimator_config_space m = (Inr config, m) \<and> seed_of config = Some (SEED m) \<and>
     map hp_name (hyperparameters config) =
       [''random_state'', ''C'', ''shrinking'', ''kernel'', ''degree'', ''coef0'', ''gamma'',
        ''gamma_value''] \<and>
     list_all default_in_domain (hyperparameters config)"
  by (simp add: SVCEstimator_config_space_def space_defs Let_def)

lemma KNNEstimator_config_space_returns:
  "\<exists>config. KNNEstimator_config_space m = (Inr config, m) \<and> seed_of config = Some (SEED m) \<and>
     map hp_name (hyperparameters config) = [''n_neighbors'', ''leaf_size'', ''metric'', ''p''] \<and>
     list_all default_in_domain (hyperparameters config)"
  by (simp add: KNNEstimator_config_space_def space_defs Let_def)

lemma MutualInformationSelection_config_space_raises:
  "MutualInformationSelection_config_space m = (Inl (NameError ''num_features''), m)"
  by (simp add: MutualInformationSelection_config_space_def space_defs Let_def)

lemma RFEstimator_hparam_space_raises: "RFEstimator_hparam_space = Inl TypeError"
  by (simp add: RFEstimator_hparam_space_def space_defs)

lemma declared_names_eval:
  "declared_names (ReliefFSelection_config_space m) = [''num_neighbors'', ''num_features'']"
  "declared_names (PLSREstimator_config_space m) = [''tol'', ''n_components'']"
  "declared_names (LogRegEstimator_config_space m) = [''random_state'', ''C'', ''penalty'']"
  "declared_names (SVCEstimator_config_space m) =
     [''random_state'', ''C'', ''shrinking'', ''kernel'', ''degree'', ''coef0'', ''gamma'',
      ''gamma_value'']"
  "declared_names (KNNEstimator_config_space m) = [''n_neighbors'', ''leaf_size'', ''metric'', ''p'']"
  using SVCEstimator_config_space_returns[of m] KNNEstimator_config_space_returns[of m]
  by (auto simp add: declared_names_def ReliefFSelection_config_space_eval
      PLSREstimator_config_space_eval LogRegEstimator_config_space_eval)

lemmas component_names =
  RFEstimator_NAME_def PLSREstimator_NAME_def LogRegEstimator_NAME_def SVCEstimator_NAME_def
  KNNEstimator_NAME_def ReliefFSelection_NAME_def MutualInformationSelection_NAME_def

text \<open>
  Claim C1, as amended. The \<^verbatim>\<open>config_space\<close> properties of
  \<^verbatim>\<open>ReliefFSelection\<close>, \<^verbatim>\<open>PLSREstimator\<close>, \<^verbatim>\<open>LogRegEstimator\<close>,
  \<^verbatim>\<open>SVCEstimator\<close> and \<^verbatim>\<open>KNNEstimator\<close> declare the bare names listed, none
  of which starts with the owning component's name. For each pipeline of
  \<^verbatim>\<open>ReliefFSelection\<close> with one of these four estimators, the selector's names
  followed by the estimator's names are pairwise distinct, so the names of the two
  spaces taken together are unique.
\<close>

theorem hyperparameter_names_per_pipeline:
  "set (declared_names (ReliefFSelection_config_space m)) = {''num_neighbors'', ''num_features''} \<and>
   set (declared_names (PLSREstimator_config_space m')) = {''tol'', ''n_components''} \<and>
   set (declared_names (LogRegEstimator_config_space m')) = {''random_state'', ''C'', ''penalty''} \<and>
   set (declared_names (SVCEstimator_config_space m')) =
     {''random_state'', ''C'', ''shrinking'', ''kernel'', ''degree'', ''coef0'', ''gamma'',
      ''gamma_value''} \<and>
   set (declared_names (KNNEstimator_config_space m')) =
     {''n_neighbors'', ''leaf_size'', ''metric'', ''p''} \<and>
   \<not> list_ex (namespaced ReliefFSelection_NAME)
       (declared_names (ReliefFSelection_config_space m)) \<and>
   \<not> list_ex (namespaced PLSREstimator_NAME) (declared_names (PLSREstimator_config_space m')) \<and>
   \<not> list_ex (namespaced LogRegEstimator_NAME)
       (declared_names (LogRegEstimator_config_space m')) \<and>
   \<not> list_ex (namespaced SVCEstimator_NAME) (declared_names (SVCEstimator_config_space m')) \<and>
   \<not> list_ex (namespaced KNNEstimator_NAME) (declared_names (KNNEstimator_config_space m')) \<and>
   distinct (declared_names (ReliefFSelection_config_space m) @
             declared_names (PLSREstimator_config_space m')) \<and>
   distinct (declared_names (ReliefFSelection_config_space m) @
             declared_names (LogRegEstimator_config_space m')) \<and>
   distinct (declared_names (ReliefFSelection_config_space m) @
             declared_names (SVCEstimator_config_space m')) \<and>
   distinct (declared_names (ReliefFSelection_config_space m) @
             declared_names (KNNEstimator_config_space m'))"
  unfolding declared_names_eval
  by (simp add: namespaced_def component_names)

text \<open>
  The claim as stated fails: \<^verbatim>\<open>LogRegEstimator\<close> and \<^verbatim>\<open>SVCEstimator\<close> both
  declare \<open>random_state\<close>, a name that starts with neither component's name.
\<close>

theorem shared_bare_names_counterexample:
  "''random_state'' \<in> set (declared_names (LogRegEstimator_config_space classification_module)) \<and>
   ''random_state'' \<in> set (declared_names (SVCEstimator_config_space classification_module)) \<and>
   \<not> namespaced LogRegEstimator_NAME ''random_state'' \<and>
   \<not> namespaced SVCEstimator_NAME ''random_state''"
  unfolding declared_names_eval
  by (simp add: namespaced_def component_names)

text \<open>
  Claim C3 evaluated. \<^verbatim>\<open>MutualInformationSelection.config_space\<close> raises
  \<open>NameError\<close>: its body reads \<^verbatim>\<open>num_features\<close>, which is neither assigned in
  the body nor bound in the module (and \<^verbatim>\<open>random_states\<close>, which it declares, is
  not among the names it adds). \<^verbatim>\<open>RFEstimator.hparam_space\<close> raises as well: the
  constructor of \<open>max_depth\<close> is handed \<^verbatim>\<open>None\<close> as a choice, and
  \<open>min_samples_leaf\<close> is declared with the default 1.0 below its lower bound 1.5,
  which its constructor refuses. The claim says that every property returns and every
  default lies in its domain. The other five properties do return, with every declared
  default inside its domain.
\<close>

theorem config_space_failures:
  "MutualInformationSelection_config_space m = (Inl (NameError ''num_features''), m) \<and>
   RFEstimator_hparam_space = Inl TypeError \<and>
   UniformFloatHyperparameter_init ''RFEstimator__min_samples_leaf'' 1.5 50.5 (PFloat 1.0) =
     Inl ValueError \<and>
   \<not> default_in_domain
       (UniformFloatHyperparameter ''RFEstimator__min_samples_leaf'' 1.5 50.5 (PFloat 1.0)) \<and>
   (\<exists>config. ReliefFSelection_config_space m = (Inr config, m) \<and>
      list_all default_in_domain (hyperparameters config)) \<and>
   (\<exists>config. PLSREstimator_config_space m' = (Inr config, m') \<and>
      list_all default_in_domain (hyperparameters config)) \<and>
   (\<exists>config. LogRegEstimator_config_space m' = (Inr config, m') \<and>
      list_all default_in_domain (hyperparameters config)) \<and>
   (\<exists>config. SVCEstimator_config_space m' = (Inr config, m') \<and>
      list_all default_in_domain (hyperparameters config)) \<and>
   (\<exists>config. KNNEstimator_config_space m' = (Inr config, m') \<and>
      list_all default_in_domain (hyperparameters config))"
  using SVCEstimator_config_space_returns[of m'] KNNEstimator_config_space_returns[of m']
  by (auto simp add: MutualInformationSelection_config_space_raises
      RFEstimator_hparam_space_raises UniformFloatHyperparameter_init_def
      ReliefFSelection_config_space_eval PLSREstimator_config_space_eval
      LogRegEstimator_config_space_eval)

text \<open>
  Claim C5 evaluated. \<^verbatim>\<open>SEED\<close> is 0 in both modules and no property changes it.
  Two invocations of \<^verbatim>\<open>MutualInformationSelection.config_space\<close> one after the
  other both raise \<open>NameError\<close> and return no space, where the claim says that any two
  invocations of the same property return identically seeded spaces. Two invocations of
  each of the other five properties return one and the same space, seeded with
  \<^verbatim>\<open>SEED\<close>, and leave the module state as it was; anything computed from the two
  spaces, a sample drawn from them included, is then the same.
\<close>

theorem config_space_two_invocations:
  "SEED classification_module = 0 \<and> SEED feature_selection_module = 0 \<and>
   invoke_twice MutualInformationSelection_config_space m =
     (Inl (NameError ''num_features''), Inl (NameError ''num_features''), m) \<and>
   (\<exists>c. invoke_twice ReliefFSelection_config_space m = (Inr c, Inr c, m) \<and>
      seed_of c = Some (SEED m)) \<and>
   (\<exists>c. invoke_twice PLSREstimator_config_space m = (Inr c, Inr c, m) \<and>
      seed_of c = Some (SEED m)) \<and>
   (\<exists>c. invoke_twice LogRegEstimator_config_space m = (Inr c, Inr c, m) \<and>
      seed_of c = Some (SEED m)) \<and>
   (\<exists>c. invoke_twice SVCEstimator_config_space m = (Inr c, Inr c, m) \<and>
      seed_of c = Some (SEED m)) \<and>
   (\<exists>c. invoke_twice KNNEstimator_config_space m = (Inr c, Inr c, m) \<and>
      seed_of c = Some (SEED m))"
  using SVCEstimator_config_space_returns[of m] KNNEstimator_config_space_returns[of m]
  by (auto simp add: invoke_twice_def classification_module_def feature_selection_module_def
      MutualInformationSelection_config_space_raises
      ReliefFSelection_config_space_eval PLSREstimator_config_space_eval
      LogRegEstimator_config_space_eval)

section \<open>Properties of \<^verbatim>\<open>fit\<close>\<close>

lemmas fit_eval_defs =
  ReliefFSelection_fit_def ReliefFSelection_check_X_y_def ReliefFSelection_check_params_def
  ReliefFSelection_select_def ReliefFSelection_init_def ReliefFSelection_NAME_def
  MinMaxScaler_fit_transform_def MinMaxScaler_transform_def scale_of_def format_braces_def
  MutualInformationSelection_fit_def MutualInformationSelection_select_def
  MutualInformationSelection_init_def MutualInformationSelection_mutual_info_classif_def
  feature_selection_globals_def

lemma MutualInformationSelection_score_function_raises:
  "MutualInformationSelection_mutual_info_classif call_global self X y =
     Inl (NameError ''mutual_info_classif'')"
  by (simp add: MutualInformationSelection_mutual_info_classif_def feature_selection_globals_def)

lemma ReliefFSelection_select_caught:
  assumes "relieff (ReliefFSelection.num_neighbors self) (ReliefFSelection.num_features self) X y = Inl e"
  shows "ReliefFSelection_select relieff self X y =
     ([], [''Failed to select support with ReliefFSelection''])"
  using assms
  by (simp add: ReliefFSelection_select_def format_braces_def ReliefFSelection_NAME_def)

lemma MutualInformationSelection_select_caught:
  assumes "select_k_best (MutualInformationSelection_mutual_info_classif call_global self)
             (MutualInformationSelection.num_features self) X y = Inl e"
  shows "MutualInformationSelection_select call_global select_k_best name_repr self X y =
     ([], [''Failed support with '' @ name_repr @ ''.''])"
  using assms
  by (simp add: MutualInformationSelection_select_def format_braces_def)

text \<open>
  Claim C2. Let the shape check accept \<open>X\<close> and \<open>y\<close> (and, for
  \<^verbatim>\<open>ReliefFSelection\<close>, let \<^verbatim>\<open>_check_params\<close> return, which runs before the
  \<^verbatim>\<open>try\<close> block). If the underlying selection algorithm then raises any exception
  \<open>e\<close>, \<^verbatim>\<open>fit\<close> does not raise \<open>e\<close>: one warning is issued, the empty
  candidate list is handed to \<open>check_support\<close>, and \<^verbatim>\<open>fit\<close> returns the object
  with the support \<open>check_support\<close> gave (it raises only what \<open>check_support\<close>
  itself raises). The score function \<^verbatim>\<open>MutualInformationSelection.fit\<close> hands to
  \<^verbatim>\<open>SelectKBest\<close> always raises \<open>NameError\<close> for \<^verbatim>\<open>mutual_info_classif\<close>,
  and that exception is among those caught.
\<close>

theorem fit_catches_selection_failure:
  "(ReliefFSelection_check_X_y sk_check_X_y s X y = Inr (X1, y1, s1) \<and>
    ReliefFSelection_check_params s1 X1 = Inr s2 \<and>
    relieff (ReliefFSelection.num_neighbors s2) (ReliefFSelection.num_features s2) X1 y1 = Inl e \<longrightarrow>
      ReliefFSelection_fit sk_check_X_y relieff check_support s X y =
        (case check_support [] X1 of
           Inl e' \<Rightarrow> Inl e'
         | Inr sp \<Rightarrow>
             Inr (s2\<lparr>ReliefFSelection.support := sp\<rparr>,
                  [''Failed to select support with ReliefFSelection'']))) \<and>
   (sk_check_X_y' X' y' = Inr (X1', y1') \<and>
    select_k_best (MutualInformationSelection_mutual_info_classif call_global t)
      (MutualInformationSelection.num_features t) X1' y1' = Inl e' \<longrightarrow>
      MutualInformationSelection_fit sk_check_X_y' call_global select_k_best check_support'
          name_repr t X' y' =
        (case check_support' [] X1' of
           Inl e'' \<Rightarrow> Inl e''
         | Inr sp \<Rightarrow>
             Inr (t\<lparr>MutualInformationSelection.support := sp\<rparr>,
                  [''Failed support with '' @ name_repr @ ''.'']))) \<and>
   MutualInformationSelection_mutual_info_classif call_global t X'' y'' =
     Inl (NameError ''mutual_info_classif'')"
proof (intro conjI impI)
  assume a: "ReliefFSelection_check_X_y sk_check_X_y s X y = Inr (X1, y1, s1) \<and>
    ReliefFSelection_check_params s1 X1 = Inr s2 \<and>
    relieff (ReliefFSelection.num_neighbors s2) (ReliefFSelection.num_features s2) X1 y1 = Inl e"
  then have "ReliefFSelection_select relieff s2 X1 y1 =
     ([], [''Failed to select support with ReliefFSelection''])"
    using ReliefFSelection_select_caught by blast
  with a show "ReliefFSelection_fit sk_check_X_y relieff check_support s X y =
        (case check_support [] X1 of
           Inl e' \<Rightarrow> Inl e'
         | Inr sp \<Rightarrow>
             Inr (s2\<lparr>ReliefFSelection.support := sp\<rparr>,
                  [''Failed to select support with ReliefFSelection'']))"
    by (simp add: ReliefFSelection_fit_def split: sum.splits)
next
  assume a: "sk_check_X_y' X' y' = Inr (X1', y1') \<and>
    select_k_best (MutualInformationSelection_mutual_info_classif call_global t)
      (MutualInformationSelection.num_features t) X1' y1' = Inl e'"
  then have "MutualInformationSelection_select call_global select_k_best name_repr t X1' y1' =
     ([], [''Failed support with '' @ name_repr @ ''.''])"
    using MutualInformationSelection_select_caught by blast
  with a show "MutualInformationSelection_fit sk_check_X_y' call_global select_k_best check_support'
          name_repr t X' y' =
        (case check_support' [] X1' of
           Inl e'' \<Rightarrow> Inl e''
         | Inr sp \<Rightarrow>
             Inr (t\<lparr>MutualInformationSelection.support := sp\<rparr>,
                  [''Failed support with '' @ name_repr @ ''.'']))"
    by (simp add: MutualInformationSelection_fit_def split: sum.splits)
next
  show "MutualInformationSelection_mutual_info_classif call_global t X'' y'' =
     Inl (NameError ''mutual_info_classif'')"
    by (rule MutualInformationSelection_score_function_raises)
qed

theorem fit_catches_selection_failure_witness:
  "ReliefFSelection_fit (\<lambda>X y. Inr (X, y)) (\<lambda>nn nf X y. Inl (LibraryError ''KDTree''))
       (\<lambda>c X. Inr (Some c)) (ReliefFSelection_init (IntVal 1) (IntVal 1)) [[0], [10]] [0, 1] =
     Inr (\<lparr>ReliefFSelection.num_neighbors = IntVal 1, ReliefFSelection.num_features = IntVal 1,
           ReliefFSelection.support = Some [],
           scaler = Some \<lparr>data_min = [0], data_max = [10]\<rparr>\<rparr>,
          [''Failed to select support with ReliefFSelection'']) \<and>
   MutualInformationSelection_fit (\<lambda>X y. Inr (X, y)) (\<lambda>f X y nn rs. Inr [])
       (\<lambda>score k X y. case score X y of Inl e \<Rightarrow> Inl e | Inr v \<Rightarrow> Inr [0])
       (\<lambda>c X. Inr (Some c)) ''<bound method>''
       (MutualInformationSelection_init (IntVal 3) (IntVal 1) NoneVal) [[0], [10]] [0, 1] =
     Inr (\<lparr>MutualInformationSelection.num_features = IntVal 1,
           MutualInformationSelection.num_neighbors = IntVal 3, random_state = NoneVal,
           MutualInformationSelection.support = Some []\<rparr>,
          [''Failed support with <bound method>.''])"
  using fit_catches_selection_failure
    [of "\<lambda>X y. Inr (X, y)" "ReliefFSelection_init (IntVal 1) (IntVal 1)" "[[0], [10]]" "[0, 1]"
        "[[0], [1]]" "[0, 1]"
        "(ReliefFSelection_init (IntVal 1) (IntVal 1))\<lparr>scaler := Some \<lparr>data_min = [0], data_max = [10]\<rparr>\<rparr>"
        "(ReliefFSelection_init (IntVal 1) (IntVal 1))\<lparr>scaler := Some \<lparr>data_min = [0], data_max = [10]\<rparr>\<rparr>"
        "\<lambda>nn nf X y. Inl (LibraryError ''KDTree'')" "LibraryError ''KDTree''"
        "\<lambda>c X. Inr (Some c)"
        "\<lambda>X y. Inr (X, y)" "[[0], [10]]" "[0, 1]" "[[0], [10]]" "[0, 1]"
        "\<lambda>score k X y. case score X y of Inl e \<Rightarrow> Inl e | Inr v \<Rightarrow> Inr [0]"
        "\<lambda>f X y nn rs. Inr []"
        "MutualInformationSelection_init (IntVal 3) (IntVal 1) NoneVal"
        "NameError ''mutual_info_classif''" "\<lambda>c X. Inr (Some c)" "''<bound method>''"]
  by (simp add: fit_eval_defs)

lemma ReliefFSelection_fit_Inr:
  assumes "ReliefFSelection_fit sk_check_X_y relieff check_support self X y = Inr (self', w)"
  obtains X1 y1 self1 self2 where
    "ReliefFSelection_check_X_y sk_check_X_y self X y = Inr (X1, y1, self1)"
    "ReliefFSelection_check_params self1 X1 = Inr self2"
    "check_support (fst (ReliefFSelection_select relieff self2 X1 y1)) X1 =
       Inr (ReliefFSelection.support self')"
    "w = snd (ReliefFSelection_select relieff self2 X1 y1)"
  using assms unfolding ReliefFSelection_fit_def
  by (auto split: sum.splits prod.splits)

lemma MutualInformationSelection_fit_Inr:
  assumes "MutualInformationSelection_fit sk_check_X_y call_global select_k_best check_support
             name_repr self X y = Inr (self', w)"
  obtains X1 y1 where
    "sk_check_X_y X y = Inr (X1, y1)"
    "check_support
       (fst (MutualInformationSelection_select call_global select_k_best name_repr self X1 y1)) X1 =
       Inr (MutualInformationSelection.support self')"
    "w = snd (MutualInformationSelection_select call_global select_k_best name_repr self X1 y1)"
  using assms unfolding MutualInformationSelection_fit_def
  by (auto split: sum.splits prod.splits)

text \<open>
  Claim C9. Whenever \<^verbatim>\<open>fit\<close> of either selector returns, on the path where the
  algorithm succeeded as on the path where its exception was caught, the
  \<^verbatim>\<open>support\<close> attribute of the returned object is what \<open>check_support\<close> returned
  for the candidate set the \<^verbatim>\<open>try\<close> block computed. So, \<open>check_support\<close> never
  returning \<^verbatim>\<open>None\<close>, the support is not the \<^verbatim>\<open>None\<close> of construction.
\<close>

theorem fit_assigns_checked_support:
  "(ReliefFSelection_fit sk_check_X_y relieff check_support s X y = Inr (s', w) \<longrightarrow>
      (\<exists>X1 y1 s1 s2.
         ReliefFSelection_check_X_y sk_check_X_y s X y = Inr (X1, y1, s1) \<and>
         ReliefFSelection_check_params s1 X1 = Inr s2 \<and>
         check_support (fst (ReliefFSelection_select relieff s2 X1 y1)) X1 =
           Inr (ReliefFSelection.support s')) \<and>
      ((\<forall>c M. check_support c M \<noteq> Inr None) \<longrightarrow> ReliefFSelection.support s' \<noteq> None)) \<and>
   (MutualInformationSelection_fit sk_check_X_y' call_global select_k_best check_support'
        name_repr t X' y' = Inr (t', w') \<longrightarrow>
      (\<exists>X1 y1.
         sk_check_X_y' X' y' = Inr (X1, y1) \<and>
         check_support'
           (fst (MutualInformationSelection_select call_global select_k_best name_repr t X1 y1)) X1 =
           Inr (MutualInformationSelection.support t')) \<and>
      ((\<forall>c M. check_support' c M \<noteq> Inr None) \<longrightarrow>
         MutualInformationSelection.support t' \<noteq> None))"
proof (intro conjI impI)
  assume a: "ReliefFSelection_fit sk_check_X_y relieff check_support s X y = Inr (s', w)"
  then show "\<exists>X1 y1 s1 s2.
         ReliefFSelection_check_X_y sk_check_X_y s X y = Inr (X1, y1, s1) \<and>
         ReliefFSelection_check_params s1 X1 = Inr s2 \<and>
         check_support (fst (ReliefFSelection_select relieff s2 X1 y1)) X1 =
           Inr (ReliefFSelection.support s')"
    by (elim ReliefFSelection_fit_Inr) blast
  assume "\<forall>c M. check_support c M \<noteq> Inr None"
  with a show "ReliefFSelection.support s' \<noteq> None"
    by (elim ReliefFSelection_fit_Inr) metis
next
  assume a: "MutualInformationSelection_fit sk_check_X_y' call_global select_k_best check_support'
        name_repr t X' y' = Inr (t', w')"
  then show "\<exists>X1 y1.
         sk_check_X_y' X' y' = Inr (X1, y1) \<and>
         check_support'
           (fst (MutualInformationSelection_select call_global select_k_best name_repr t X1 y1)) X1 =
           Inr (MutualInformationSelection.support t')"
    by (elim MutualInformationSelection_fit_Inr) blast
  assume "\<forall>c M. check_support' c M \<noteq> Inr None"
  with a show "MutualInformationSelection.support t' \<noteq> None"
    by (elim MutualInformationSelection_fit_Inr) metis
qed

theorem fit_assigns_checked_support_witness:
  "ReliefFSelection_fit (\<lambda>X y. Inr (X, y)) (\<lambda>nn nf X y. Inr [1, 0]) (\<lambda>c X. Inr (Some c))
       (ReliefFSelection_init (IntVal 1) (IntVal 1)) [[0, 5], [10, 7]] [0, 1] =
     Inr (\<lparr>ReliefFSelection.num_neighbors = IntVal 1, ReliefFSelection.num_features = IntVal 1,
           ReliefFSelection.support = Some [1],
           scaler = Some \<lparr>data_min = [0, 5], data_max = [10, 7]\<rparr>\<rparr>, []) \<and>
   MutualInformationSelection_fit (\<lambda>X y. Inr (X, y)) (\<lambda>f X y nn rs. Inr [])
       (\<lambda>score k X y. Inr [0]) (\<lambda>c X. Inr (Some c)) ''<bound method>''
       (MutualInformationSelection_init (IntVal 3) (IntVal 1) NoneVal) [[0], [10]] [0, 1] =
     Inr (\<lparr>MutualInformationSelection.num_features = IntVal 1,
           MutualInformationSelection.num_neighbors = IntVal 3, random_state = NoneVal,
           MutualInformationSelection.support = Some [0]\<rparr>, []) \<and>
   (\<forall>c M. (Inr (Some c) :: py_error + int list option) \<noteq> Inr None)"
  using fit_assigns_checked_support
    [of "\<lambda>X y. Inr (X, y)" "\<lambda>nn nf X y. Inr [1, 0]" "\<lambda>c X. Inr (Some c)"
        "ReliefFSelection_init (IntVal 1) (IntVal 1)" "[[0, 5], [10, 7]]" "[0, 1]"
        "\<lparr>ReliefFSelection.num_neighbors = IntVal 1, ReliefFSelection.num_features = IntVal 1,
           ReliefFSelection.support = Some [1],
           scaler = Some \<lparr>data_min = [0, 5], data_max = [10, 7]\<rparr>\<rparr>" "[]"
        "\<lambda>X y. Inr (X, y)" "\<lambda>f X y nn rs. Inr []" "\<lambda>score k X y. Inr [0]"
        "\<lambda>c X. Inr (Some c)" "''<bound method>''"
        "MutualInformationSelection_init (IntVal 3) (IntVal 1) NoneVal" "[[0], [10]]" "[0, 1]"
        "\<lparr>MutualInformationSelection.num_features = IntVal 1,
           MutualInformationSelection.num_neighbors = IntVal 3, random_state = NoneVal,
           MutualInformationSelection.support = Some [0]\<rparr>" "[]"]
  by (simp add: fit_eval_defs)

text \<open>
  Claim C10, as amended. In \<^verbatim>\<open>ReliefFSelection.fit\<close>, after \<^verbatim>\<open>_check_params\<close>
  has returned, \<^verbatim>\<open>num_features\<close> is an integer \<open>k\<close>; when the underlying ReliefF
  fit succeeds with the ranking \<open>ranked\<close>, the candidate support is the slice
  \<^verbatim>\<open>ranked[:k]\<close> and no warning is issued. The slice never raises, for any integer,
  and is never longer than the ranking. When \<open>k\<close> is not negative the candidate holds
  at most \<open>k\<close> indices.
\<close>

theorem ReliefFSelection_candidate_slice:
  "(ReliefFSelection_check_params s1 X1 = Inr s2 \<and>
    relieff (ReliefFSelection.num_neighbors s2) (ReliefFSelection.num_features s2) X1 y1 =
      Inr ranked \<longrightarrow>
      (\<exists>k. ReliefFSelection.num_features s2 = IntVal k \<and>
           py_slice_upto ranked (IntVal k) = Inr (fst (ReliefFSelection_select relieff s2 X1 y1)) \<and>
           snd (ReliefFSelection_select relieff s2 X1 y1) = [] \<and>
           (0 \<le> k \<longrightarrow> int (length (fst (ReliefFSelection_select relieff s2 X1 y1))) \<le> k))) \<and>
   (\<exists>c. py_slice_upto ranked (IntVal j) = Inr c \<and> length c \<le> length ranked)"
proof (intro conjI impI)
  assume a: "ReliefFSelection_check_params s1 X1 = Inr s2 \<and>
    relieff (ReliefFSelection.num_neighbors s2) (ReliefFSelection.num_features s2) X1 y1 =
      Inr ranked"
  then obtain f where f: "ReliefFSelection.num_features s2 = IntVal f"
    by (auto elim!: ReliefFSelection_check_params_Inr)
  with a have sel: "ReliefFSelection_select relieff s2 X1 y1 =
      (if f < 0 then take (nat (int (length ranked) + f)) ranked else take (nat f) ranked, [])"
    by (simp add: ReliefFSelection_select_def)
  show "\<exists>k. ReliefFSelection.num_features s2 = IntVal k \<and>
           py_slice_upto ranked (IntVal k) = Inr (fst (ReliefFSelection_select relieff s2 X1 y1)) \<and>
           snd (ReliefFSelection_select relieff s2 X1 y1) = [] \<and>
           (0 \<le> k \<longrightarrow> int (length (fst (ReliefFSelection_select relieff s2 X1 y1))) \<le> k)"
    using f sel by (intro exI[of _ f]) auto
next
  show "\<exists>c. py_slice_upto ranked (IntVal j) = Inr c \<and> length c \<le> length ranked"
    by auto
qed

theorem ReliefFSelection_candidate_slice_witness:
  "ReliefFSelection_check_params (ReliefFSelection_init (IntVal 1) (IntVal 5)) [[1, 2, 3], [4, 5, 6]] =
     Inr (ReliefFSelection_init (IntVal 1) (IntVal 5)) \<and>
   ReliefFSelection_select (\<lambda>nn nf X y. Inr [2, 0, 1]) (ReliefFSelection_init (IntVal 1) (IntVal 5))
     [[1, 2, 3], [4, 5, 6]] [0, 1] = ([2, 0, 1], []) \<and>
   (0::int) \<le> 5 \<and> int (length [2::int, 0, 1]) \<le> 5"
  using ReliefFSelection_candidate_slice
    [of "ReliefFSelection_init (IntVal 1) (IntVal 5)" "[[1, 2, 3], [4, 5, 6]]"
        "ReliefFSelection_init (IntVal 1) (IntVal 5)" "\<lambda>nn nf X y. Inr [2, 0, 1]" "[0, 1]"
        "[2, 0, 1]" 5]
  by (simp add: fit_eval_defs)

text \<open>
  The claim as stated, without the restriction to a non-negative \<^verbatim>\<open>num_features\<close>,
  fails: \<^verbatim>\<open>_check_params\<close> keeps \<open>-1\<close>, and \<^verbatim>\<open>ranked[:-1]\<close> drops the last
  index only, so a ranking of three features leaves two candidates.
\<close>

theorem ReliefFSelection_negative_num_features_counterexample:
  "ReliefFSelection_fit (\<lambda>X y. Inr (X, y)) (\<lambda>nn nf X y. Inr [2, 0, 1]) (\<lambda>c X. Inr (Some c))
       (ReliefFSelection_init (IntVal 1) (IntVal (- 1))) [[1, 2, 3], [4, 5, 6]] [0, 1] =
     Inr (\<lparr>ReliefFSelection.num_neighbors = IntVal 1, ReliefFSelection.num_features = IntVal (- 1),
           ReliefFSelection.support = Some [2, 0],
           scaler = Some \<lparr>data_min = [1, 2, 3], data_max = [4, 5, 6]\<rparr>\<rparr>, []) \<and>
   fst (ReliefFSelection_select (\<lambda>nn nf X y. Inr [2, 0, 1])
          (ReliefFSelection_init (IntVal 1) (IntVal (- 1))) [[0, 0, 0], [1, 1, 1]] [0, 1]) = [2, 0] \<and>
   \<not> int (length (fst (ReliefFSelection_select (\<lambda>nn nf X y. Inr [2, 0, 1])
          (ReliefFSelection_init (IntVal 1) (IntVal (- 1))) [[0, 0, 0], [1, 1, 1]] [0, 1]))) \<le> - 1"
  by (simp add: fit_eval_defs)

text \<open>
  Claim C6 evaluated on one instance and the matrix with the rows \<open>[0]\<close> and
  \<open>[10]\<close>: the first \<^verbatim>\<open>_check_X_y\<close> fits the scaler, stores it and returns the
  scaled rows \<open>[0]\<close> and \<open>[1]\<close>; the second call on the resulting instance finds
  the scaler set and returns the rows unscaled. The claim says that the scaling is
  applied on every call.
\<close>

theorem ReliefFSelection_scaling_only_once:
  "ReliefFSelection_check_X_y (\<lambda>X y. Inr (X, y)) (ReliefFSelection_init (IntVal 1) (IntVal 1))
       [[0], [10]] [0, 1] =
     Inr ([[0], [1]], [0, 1],
          (ReliefFSelection_init (IntVal 1) (IntVal 1))
            \<lparr>scaler := Some \<lparr>data_min = [0], data_max = [10]\<rparr>\<rparr>) \<and>
   ReliefFSelection_check_X_y (\<lambda>X y. Inr (X, y))
       ((ReliefFSelection_init (IntVal 1) (IntVal 1))
          \<lparr>scaler := Some \<lparr>data_min = [0], data_max = [10]\<rparr>\<rparr>)
       [[0], [10]] [0, 1] =
     Inr ([[0], [10]], [0, 1],
          (ReliefFSelection_init (IntVal 1) (IntVal 1))
            \<lparr>scaler := Some \<lparr>data_min = [0], data_max = [10]\<rparr>\<rparr>)"
  by (simp add: fit_eval_defs)

end
